theory Spec2Isabelle
  imports Main
begin

section \<open>The Exoscale kubeconfig store (pkg/store/kubeconfig\_store\_exoscale.go)\<close>

text \<open>
  A shallow embedding of \<^verbatim>\<open>StartSearch\<close> and \<^verbatim>\<open>GetKubeconfigForPath\<close>.

  \<^item> Go strings are \<open>string\<close>; \<^verbatim>\<open>v3.UUID\<close>, \<^verbatim>\<open>v3.ZoneName\<close> and
    \<^verbatim>\<open>v3.Endpoint\<close> are string types of the SDK.
  \<^item> A Go \<^verbatim>\<open>map\<close> is a partial function \<open>'k \<rightharpoonup> 'v\<close>. The order in which
    \<^verbatim>\<open>range\<close> visits a map is not fixed by the language, so every function that
    ranges over a map takes the order of that run as a list of keys; \<open>range_order\<close>
    says that such a list enumerates the keys of the map, each once.
  \<^item> The provider SDK, the base64 decoder and the kubeconfig parser and serializer are
    collaborators outside the file. They are parameters (the records \<open>Client\<close> and
    \<open>Codec\<close>), each returning an error or a value.
  \<^item> The effects of the two functions are threaded through the record \<open>state\<close>: the
    index \<^verbatim>\<open>s.DiscoveredClusters\<close>, the events sent on the channel, the log entries
    written and the requests issued to the provider, each in the order it happens.
    Sending on the channel appends to the events sent: the receiver takes every event.
  \<^item> Within one call the answer of the provider to a listing request depends on the
    endpoint only.
\<close>

subsection \<open>Data\<close>

type_synonym UUID = string
type_synonym ZoneName = string
type_synonym Endpoint = string

text \<open>An error returned by a collaborator (the message of a Go \<^verbatim>\<open>error\<close>).\<close>
type_synonym lib_error = string

text \<open>\<^verbatim>\<open>ExoscaleKube\<close>, lines 74 to 79.\<close>
record ExoscaleKube =
  ID :: UUID
  Name :: string
  ZoneName :: ZoneName
  ZoneEndpoint :: Endpoint

text \<open>The fields of \<^verbatim>\<open>v3.Zone\<close> and \<^verbatim>\<open>v3.SKSCluster\<close> that the file reads.\<close>
record Zone =
  zone_Name :: ZoneName
  zone_APIEndpoint :: Endpoint

record SKSCluster =
  sks_ID :: UUID
  sks_Name :: string

text \<open>\<^verbatim>\<open>v3.SKSKubeconfigRequest\<close> as built in lines 200 to 204.\<close>
record SKSKubeconfigRequest =
  Groups :: "string list"
  User :: string
  Ttl :: int

text \<open>
  The errors the two functions build with \<^verbatim>\<open>fmt.Errorf\<close>, one constructor for each
  format string, carrying the arguments of the format.
\<close>
datatype error =
    FailedToListZones lib_error
  | InvalidClusterPath string
  | NoClusterFound string
  | FailedToGenerate string lib_error
  | FailedToDecode string lib_error
  | ParseKubeconfig lib_error
  | MarshalKubeconfig lib_error

text \<open>\<^verbatim>\<open>storetypes.SearchResult\<close>.\<close>
record SearchResult =
  KubeconfigPath :: string
  Error :: "error option"

text \<open>The calls to \<^verbatim>\<open>s.Logger\<close>, one constructor for each.\<close>
datatype log_entry =
    DebugStartSearch
  | DebugNoZones
  | WarnListFailed lib_error ZoneName
  | DebugNoClusters ZoneName
  | DebugDiscovered string UUID ZoneName

text \<open>The requests sent to the provider.\<close>
datatype api_call =
    CallListZones
  | CallListSKSClusters Endpoint
  | CallGenerateSKSClusterKubeconfig Endpoint UUID SKSKubeconfigRequest

text \<open>
  The provider client. \<^verbatim>\<open>s.Client.WithEndpoint(e)\<close> followed by a call is the call
  with \<open>e\<close> as its first argument.
\<close>
record Client =
  ListZones :: "lib_error + Zone list"
  ListSKSClusters :: "Endpoint \<Rightarrow> lib_error + SKSCluster list"
  GenerateSKSClusterKubeconfig :: "Endpoint \<Rightarrow> UUID \<Rightarrow> SKSKubeconfigRequest \<Rightarrow> lib_error + string"

text \<open>
  \<^verbatim>\<open>api.Context\<close> and \<^verbatim>\<open>api.Config\<close> of client-go. The cluster and user entries
  (\<open>'cl\<close>, \<open>'au\<close>), the preferences \<open>'p\<close> and the extensions \<open>'x\<close> are never looked into
  by the file. The maps of \<^verbatim>\<open>api.Config\<close> hold pointers; \<^verbatim>\<open>clientcmd.Load\<close>
  allocates one object for each name, so no two keys share an object and the entries
  are modelled as values.
\<close>
record 'x Context =
  LocationOfOrigin :: string
  Cluster :: string
  AuthInfo :: string
  Namespace :: string
  ContextExtensions :: 'x

record ('p, 'cl, 'au, 'x) Config =
  Kind :: string
  APIVersion :: string
  Preferences :: 'p
  Clusters :: "string \<rightharpoonup> 'cl"
  AuthInfos :: "string \<rightharpoonup> 'au"
  Contexts :: "string \<rightharpoonup> 'x Context"
  CurrentContext :: string
  Extensions :: 'x

text \<open>
  \<^verbatim>\<open>base64.StdEncoding.DecodeString\<close>, \<^verbatim>\<open>clientcmd.Load\<close> and
  \<^verbatim>\<open>clientcmd.Write\<close>; \<open>'b\<close> is the type of the bytes written.
\<close>
record ('p, 'cl, 'au, 'x, 'b) Codec =
  DecodeString :: "string \<Rightarrow> lib_error + string"
  Load :: "string \<Rightarrow> lib_error + ('p, 'cl, 'au, 'x) Config"
  Write :: "('p, 'cl, 'au, 'x) Config \<Rightarrow> lib_error + 'b"

record state =
  DiscoveredClusters :: "UUID \<rightharpoonup> ExoscaleKube"
  channel :: "SearchResult list"
  logged :: "log_entry list"
  requests :: "api_call list"

subsection \<open>Ranging over a map\<close>

definition range_order :: "('k \<rightharpoonup> 'v) \<Rightarrow> 'k list \<Rightarrow> bool" where
  "range_order m ks = (distinct ks \<and> set ks = dom m)"

subsection \<open>StartSearch, lines 115 to 172\<close>

text \<open>The body of the inner loop, lines 150 to 170.\<close>
definition record_cluster :: "Zone \<Rightarrow> SKSCluster \<Rightarrow> state \<Rightarrow> state" where
  "record_cluster zone cluster s =
     s\<lparr>DiscoveredClusters := (DiscoveredClusters s)(sks_ID cluster \<mapsto>
          \<lparr>ID = sks_ID cluster, Name = sks_Name cluster,
           ZoneName = zone_Name zone, ZoneEndpoint = zone_APIEndpoint zone\<rparr>),
       logged := logged s @ [DebugDiscovered (sks_Name cluster) (sks_ID cluster) (zone_Name zone)],
       channel := channel s @
          [\<lparr>KubeconfigPath = zone_Name zone @ ''/'' @ sks_Name cluster, Error = None\<rparr>]\<rparr>"

fun search_clusters :: "Zone \<Rightarrow> SKSCluster list \<Rightarrow> state \<Rightarrow> state" where
  "search_clusters zone [] s = s"
| "search_clusters zone (cluster # rest) s = search_clusters zone rest (record_cluster zone cluster s)"

text \<open>The outer loop, lines 135 to 171.\<close>
fun search_zones :: "Client \<Rightarrow> Zone list \<Rightarrow> state \<Rightarrow> state" where
  "search_zones client [] s = s"
| "search_zones client (zone # rest) s =
     (let s1 = s\<lparr>requests := requests s @ [CallListSKSClusters (zone_APIEndpoint zone)]\<rparr> in
      case ListSKSClusters client (zone_APIEndpoint zone) of
        Inl err \<Rightarrow>
          search_zones client rest (s1\<lparr>logged := logged s1 @ [WarnListFailed err (zone_Name zone)]\<rparr>)
      | Inr clusters \<Rightarrow>
          if length clusters = 0
          then search_zones client rest (s1\<lparr>logged := logged s1 @ [DebugNoClusters (zone_Name zone)]\<rparr>)
          else search_zones client rest (search_clusters zone clusters s1))"

definition StartSearch :: "Client \<Rightarrow> state \<Rightarrow> state" where
  "StartSearch client s =
     (let s0 = s\<lparr>logged := logged s @ [DebugStartSearch], requests := requests s @ [CallListZones]\<rparr> in
      case ListZones client of
        Inl err \<Rightarrow>
          s0\<lparr>channel := channel s0 @ [\<lparr>KubeconfigPath = '''', Error = Some (FailedToListZones err)\<rparr>]\<rparr>
      | Inr zones \<Rightarrow>
          if length zones = 0
          then s0\<lparr>logged := logged s0 @ [DebugNoZones]\<rparr>
          else search_zones client zones s0)"

subsection \<open>GetKubeconfigForPath, lines 176 to 270\<close>

text \<open>
  \<^verbatim>\<open>strings.SplitN(s, sep, n)\<close> for a separator of one byte and \<open>n \<ge> 0\<close>: at most
  \<open>n\<close> pieces, the last one the unsplit rest.
\<close>
fun SplitN :: "string \<Rightarrow> char \<Rightarrow> nat \<Rightarrow> string list" where
  "SplitN s sep 0 = []"
| "SplitN s sep (Suc 0) = [s]"
| "SplitN s sep (Suc (Suc n)) =
     (if sep \<in> set s
      then takeWhile (\<lambda>c. c \<noteq> sep) s # SplitN (tl (dropWhile (\<lambda>c. c \<noteq> sep) s)) sep (Suc n)
      else [s])"

text \<open>
  The lookup loop, lines 186 to 192, visiting the keys of the index in the order \<open>ks\<close>:
  the first entry whose zone and name match, or none.
\<close>
fun find_match :: "UUID list \<Rightarrow> (UUID \<rightharpoonup> ExoscaleKube) \<Rightarrow> string \<Rightarrow> string \<Rightarrow> ExoscaleKube option" where
  "find_match [] idx zoneName clusterName = None"
| "find_match (k # ks) idx zoneName clusterName =
     (case idx k of
        None \<Rightarrow> find_match ks idx zoneName clusterName
      | Some c \<Rightarrow>
          if ZoneName c = zoneName \<and> Name c = clusterName then Some c
          else find_match ks idx zoneName clusterName)"

text \<open>
  Lines 233 to 238: the first key that \<^verbatim>\<open>range cfg.Clusters\<close> visits, or the zero
  value of \<^verbatim>\<open>string\<close> when the map has no key.
\<close>
definition oldClusterName :: "string list \<Rightarrow> string" where
  "oldClusterName ks = (case ks of [] \<Rightarrow> '''' | k # _ \<Rightarrow> k)"

text \<open>Lines 240 to 244.\<close>
definition move_cluster ::
  "string \<Rightarrow> string \<Rightarrow> ('p, 'cl, 'au, 'x) Config \<Rightarrow> ('p, 'cl, 'au, 'x) Config" where
  "move_cluster old clusterName cfg =
     (case Clusters cfg old of
        Some c \<Rightarrow> cfg\<lparr>Clusters := ((Clusters cfg)(clusterName \<mapsto> c))(old := None)\<rparr>
      | None \<Rightarrow> cfg)"

text \<open>Lines 246 to 256.\<close>
definition move_context ::
  "string \<Rightarrow> string \<Rightarrow> ('p, 'cl, 'au, 'x) Config \<Rightarrow> ('p, 'cl, 'au, 'x) Config" where
  "move_context old clusterName cfg =
     (case Contexts cfg old of
        Some ctx \<Rightarrow>
          cfg\<lparr>Contexts := ((Contexts cfg)(clusterName \<mapsto> ctx\<lparr>Cluster := clusterName\<rparr>))(old := None)\<rparr>
      | None \<Rightarrow> cfg)"

text \<open>Lines 258 to 261.\<close>
definition move_current_context ::
  "string \<Rightarrow> string \<Rightarrow> ('p, 'cl, 'au, 'x) Config \<Rightarrow> ('p, 'cl, 'au, 'x) Config" where
  "move_current_context old clusterName cfg =
     (if CurrentContext cfg = old then cfg\<lparr>CurrentContext := clusterName\<rparr> else cfg)"

text \<open>
  The identity rewrite, lines 233 to 261, where \<open>ks\<close> is the order in which
  \<^verbatim>\<open>range cfg.Clusters\<close> visits the keys.
\<close>
definition rename_identity ::
  "string list \<Rightarrow> string \<Rightarrow> ('p, 'cl, 'au, 'x) Config \<Rightarrow> ('p, 'cl, 'au, 'x) Config" where
  "rename_identity ks clusterName cfg =
     (let old = oldClusterName ks in
      move_current_context old clusterName
        (move_context old clusterName (move_cluster old clusterName cfg)))"

text \<open>
  Lines 178 to 226: the path is split, the cluster looked up in the index (visited in the
  order \<open>idx_order\<close>), the kubeconfig requested, decoded and parsed. The result is the
  cluster name and the parsed document.
\<close>
definition fetch_kubeconfig ::
  "Client \<Rightarrow> ('p, 'cl, 'au, 'x, 'b) Codec \<Rightarrow> UUID list \<Rightarrow> string \<Rightarrow> state
     \<Rightarrow> (error + string \<times> ('p, 'cl, 'au, 'x) Config) \<times> state" where
  "fetch_kubeconfig client codec idx_order path s =
     (case SplitN path (CHR ''/'') 2 of
        [zoneName, clusterName] \<Rightarrow>
          (case find_match idx_order (DiscoveredClusters s) zoneName clusterName of
             None \<Rightarrow> (Inl (NoClusterFound path), s)
           | Some match \<Rightarrow>
               (let req = \<lparr>Groups = [''system:masters''], User = ''default'', Ttl = 2592000\<rparr>;
                    s1 = s\<lparr>requests := requests s @
                            [CallGenerateSKSClusterKubeconfig (ZoneEndpoint match) (ID match) req]\<rparr>
                in case GenerateSKSClusterKubeconfig client (ZoneEndpoint match) (ID match) req of
                     Inl err \<Rightarrow> (Inl (FailedToGenerate path err), s1)
                   | Inr resp \<Rightarrow>
                       (case DecodeString codec resp of
                          Inl err \<Rightarrow> (Inl (FailedToDecode path err), s1)
                        | Inr rawKubeconfig \<Rightarrow>
                            (case Load codec rawKubeconfig of
                               Inl err \<Rightarrow> (Inl (ParseKubeconfig err), s1)
                             | Inr cfg \<Rightarrow> (Inr (clusterName, cfg), s1)))))
      | _ \<Rightarrow> (Inl (InvalidClusterPath path), s))"

text \<open>
  The whole function. \<open>key_order\<close> is the order in which the keys of the parsed document's
  clusters are visited; the second argument of the source (the extra context) is ignored
  by it.
\<close>
definition GetKubeconfigForPath ::
  "Client \<Rightarrow> ('p, 'cl, 'au, 'x, 'b) Codec \<Rightarrow> UUID list \<Rightarrow> string list \<Rightarrow> string
     \<Rightarrow> (string \<rightharpoonup> string) \<Rightarrow> state \<Rightarrow> (error + 'b) \<times> state" where
  "GetKubeconfigForPath client codec idx_order key_order path extra s =
     (case fetch_kubeconfig client codec idx_order path s of
        (Inl err, s1) \<Rightarrow> (Inl err, s1)
      | (Inr (clusterName, cfg), s1) \<Rightarrow>
          (case Write codec (rename_identity key_order clusterName cfg) of
             Inl err \<Rightarrow> (Inl (MarshalKubeconfig err), s1)
           | Inr modifiedBytes \<Rightarrow> (Inr modifiedBytes, s1)))"


section \<open>Notions used to state the properties\<close>

subsection \<open>Discovery\<close>

text \<open>
  What the listing call of a zone contributes to a pass: the clusters it returns, and
  nothing when it fails.
\<close>
definition listed :: "Client \<Rightarrow> Zone \<Rightarrow> SKSCluster list" where
  "listed client zone =
     (case ListSKSClusters client (zone_APIEndpoint zone) of Inl err \<Rightarrow> [] | Inr clusters \<Rightarrow> clusters)"

text \<open>
  The clusters of a pass, each with its zone, in the order the provider returned the zones
  and, within a zone, the clusters.
\<close>
definition traversal :: "Client \<Rightarrow> Zone list \<Rightarrow> (Zone \<times> SKSCluster) list" where
  "traversal client zones = concat (map (\<lambda>zone. map (Pair zone) (listed client zone)) zones)"

text \<open>The success event and the index entry of a cluster found in a zone.\<close>
definition found_event :: "Zone \<times> SKSCluster \<Rightarrow> SearchResult" where
  "found_event zc = \<lparr>KubeconfigPath = zone_Name (fst zc) @ ''/'' @ sks_Name (snd zc), Error = None\<rparr>"

definition index_entry :: "Zone \<times> SKSCluster \<Rightarrow> ExoscaleKube" where
  "index_entry zc = \<lparr>ID = sks_ID (snd zc), Name = sks_Name (snd zc),
                     ZoneName = zone_Name (fst zc), ZoneEndpoint = zone_APIEndpoint (fst zc)\<rparr>"

definition insert_entry :: "Zone \<times> SKSCluster \<Rightarrow> (UUID \<rightharpoonup> ExoscaleKube) \<Rightarrow> (UUID \<rightharpoonup> ExoscaleKube)" where
  "insert_entry zc idx = idx(sks_ID (snd zc) \<mapsto> index_entry zc)"

text \<open>The warnings of a pass: one for each zone whose listing call fails, in zone order.\<close>
definition failures :: "Client \<Rightarrow> Zone list \<Rightarrow> log_entry list" where
  "failures client zones =
     concat (map (\<lambda>zone. case ListSKSClusters client (zone_APIEndpoint zone) of
                           Inl err \<Rightarrow> [WarnListFailed err (zone_Name zone)] | Inr clusters \<Rightarrow> []) zones)"

fun is_warning :: "log_entry \<Rightarrow> bool" where
  "is_warning (WarnListFailed err zone) = True"
| "is_warning entry = False"

subsection \<open>Example values\<close>

definition init_state :: state where
  "init_state = \<lparr>DiscoveredClusters = Map.empty, channel = [], logged = [], requests = []\<rparr>"

text \<open>A provider whose zone listing fails.\<close>
definition unreachable_client :: Client where
  "unreachable_client =
     \<lparr>ListZones = Inl ''unauthorized'',
      ListSKSClusters = (\<lambda>endpoint. Inl ''unauthorized''),
      GenerateSKSClusterKubeconfig = (\<lambda>endpoint id req. Inl ''unauthorized'')\<rparr>"

text \<open>Zones, and providers that list given clusters in given zones.\<close>
definition gva_zone :: Zone where
  "gva_zone = \<lparr>zone_Name = ''ch-gva-2'', zone_APIEndpoint = ''https://api-ch-gva-2''\<rparr>"

definition fra_zone :: Zone where
  "fra_zone = \<lparr>zone_Name = ''de-fra-1'', zone_APIEndpoint = ''https://api-de-fra-1''\<rparr>"

definition vie_zone :: Zone where
  "vie_zone = \<lparr>zone_Name = ''at-vie-1'', zone_APIEndpoint = ''https://api-at-vie-1''\<rparr>"

definition listing_client :: "Zone list \<Rightarrow> (Endpoint \<Rightarrow> lib_error + SKSCluster list) \<Rightarrow> Client" where
  "listing_client zones listing =
     \<lparr>ListZones = Inr zones, ListSKSClusters = listing,
      GenerateSKSClusterKubeconfig = (\<lambda>endpoint id req. Inr ''payload'')\<rparr>"

definition partial_client :: Client where
  "partial_client =
     listing_client [gva_zone, fra_zone, vie_zone]
       (\<lambda>endpoint.
          if endpoint = ''https://api-de-fra-1'' then Inl ''timeout''
          else if endpoint = ''https://api-ch-gva-2''
          then Inr [\<lparr>sks_ID = ''abc-123'', sks_Name = ''mycluster''\<rparr>]
          else Inr [\<lparr>sks_ID = ''def-456'', sks_Name = ''staging''\<rparr>])"

definition healthy_client :: Client where
  "healthy_client =
     listing_client [gva_zone, vie_zone]
       (\<lambda>endpoint.
          if endpoint = ''https://api-ch-gva-2''
          then Inr [\<lparr>sks_ID = ''abc-123'', sks_Name = ''mycluster''\<rparr>,
                    \<lparr>sks_ID = ''abc-789'', sks_Name = ''batch''\<rparr>]
          else Inr [\<lparr>sks_ID = ''def-456'', sks_Name = ''staging''\<rparr>])"

definition mirrored_client :: Client where
  "mirrored_client =
     listing_client [gva_zone, vie_zone]
       (\<lambda>endpoint. Inr [\<lparr>sks_ID = ''abc-123'', sks_Name = ''mycluster''\<rparr>])"

definition namesake_client :: Client where
  "namesake_client =
     listing_client [gva_zone]
       (\<lambda>endpoint. Inr [\<lparr>sks_ID = ''abc-123'', sks_Name = ''mycluster''\<rparr>,
                          \<lparr>sks_ID = ''def-456'', sks_Name = ''mycluster''\<rparr>])"

definition relisted_client :: Client where
  "relisted_client =
     listing_client [gva_zone]
       (\<lambda>endpoint. Inr [\<lparr>sks_ID = ''abc-123'', sks_Name = ''mycluster''\<rparr>,
                          \<lparr>sks_ID = ''abc-123'', sks_Name = ''renamed''\<rparr>])"

subsection \<open>Credential documents\<close>

text \<open>
  The cross-references of a document are valid: every context references a key of the
  clusters, and a current context that is set is a key of the contexts.
\<close>
definition crossrefs_ok :: "('p, 'cl, 'au, 'x) Config \<Rightarrow> bool" where
  "crossrefs_ok cfg =
     ((\<forall>ctx \<in> ran (Contexts cfg). Cluster ctx \<in> dom (Clusters cfg))
      \<and> (CurrentContext cfg \<noteq> '''' \<longrightarrow> CurrentContext cfg \<in> dom (Contexts cfg)))"

text \<open>Every context that references the cluster \<open>old\<close> is stored under the key \<open>old\<close>.\<close>
definition mirrors_cluster_key :: "string \<Rightarrow> ('p, 'cl, 'au, 'x) Config \<Rightarrow> bool" where
  "mirrors_cluster_key old cfg =
     (\<forall>k \<in> dom (Contexts cfg). Cluster (the (Contexts cfg k)) = old \<longrightarrow> k = old)"

subsection \<open>Example documents and codecs\<close>

text \<open>
  A codec for the examples: the payload is taken as it is, the parser returns the document
  \<open>doc\<close>, and the serializer returns the document it is given, so that the result of a
  call shows the document written.
\<close>
definition stub_codec :: "('p, 'cl, 'au, 'x) Config \<Rightarrow> ('p, 'cl, 'au, 'x, ('p, 'cl, 'au, 'x) Config) Codec" where
  "stub_codec doc = \<lparr>DecodeString = Inr, Load = (\<lambda>raw. Inr doc), Write = Inr\<rparr>"

text \<open>A provider with one zone and one cluster, and an index that holds that cluster.\<close>
definition gva_client :: Client where
  "gva_client =
     \<lparr>ListZones = Inr [\<lparr>zone_Name = ''ch-gva-2'', zone_APIEndpoint = ''https://api-ch-gva-2''\<rparr>],
      ListSKSClusters = (\<lambda>endpoint. Inr [\<lparr>sks_ID = ''abc-123'', sks_Name = ''mycluster''\<rparr>]),
      GenerateSKSClusterKubeconfig = (\<lambda>endpoint id req. Inr ''payload'')\<rparr>"

definition gva_state :: state where
  "gva_state =
     \<lparr>DiscoveredClusters =
        [''abc-123'' \<mapsto> \<lparr>ID = ''abc-123'', Name = ''mycluster'', ZoneName = ''ch-gva-2'',
                          ZoneEndpoint = ''https://api-ch-gva-2''\<rparr>],
      channel = [], logged = [], requests = []\<rparr>"

text \<open>
  The document of the provider for the cluster \<open>abc-123\<close>; the same document with its
  context stored under the name \<open>admin\<close>; a document without entries.
\<close>
definition admin_context :: "unit Context" where
  "admin_context = \<lparr>LocationOfOrigin = '''', Cluster = ''abc-123'', AuthInfo = ''default'',
                    Namespace = '''', ContextExtensions = ()\<rparr>"

definition provider_config :: "(unit, string, string, unit) Config" where
  "provider_config =
     \<lparr>Kind = ''Config'', APIVersion = ''v1'', Preferences = (),
      Clusters = [''abc-123'' \<mapsto> ''https://abc-123.sks''],
      AuthInfos = [''default'' \<mapsto> ''client-certificate''],
      Contexts = [''abc-123'' \<mapsto> admin_context],
      CurrentContext = ''abc-123'', Extensions = ()\<rparr>"

definition admin_config :: "(unit, string, string, unit) Config" where
  "admin_config = provider_config\<lparr>Contexts := [''admin'' \<mapsto> admin_context], CurrentContext := ''admin''\<rparr>"

definition empty_config :: "(unit, string, string, unit) Config" where
  "empty_config =
     \<lparr>Kind = ''Config'', APIVersion = ''v1'', Preferences = (), Clusters = Map.empty,
      AuthInfos = Map.empty, Contexts = Map.empty, CurrentContext = '''', Extensions = ()\<rparr>"


section \<open>Discovery: what a pass sends, records and logs\<close>

lemma traversal_Nil: "traversal client [] = []"
  by (simp add: traversal_def)

lemma traversal_Cons:
  "traversal client (zone # rest) = map (Pair zone) (listed client zone) @ traversal client rest"
  by (simp add: traversal_def)

lemma failures_Nil: "failures client [] = []"
  by (simp add: failures_def)

lemma failures_Cons:
  "failures client (zone # rest) =
     (case ListSKSClusters client (zone_APIEndpoint zone) of
        Inl err \<Rightarrow> [WarnListFailed err (zone_Name zone)] | Inr clusters \<Rightarrow> []) @ failures client rest"
  by (simp add: failures_def)

lemma search_clusters_channel:
  "channel (search_clusters zone clusters s) = channel s @ map (\<lambda>c. found_event (zone, c)) clusters"
  by (induction clusters arbitrary: s) (simp_all add: record_cluster_def found_event_def)

lemma search_clusters_index:
  "DiscoveredClusters (search_clusters zone clusters s) =
     fold insert_entry (map (Pair zone) clusters) (DiscoveredClusters s)"
  by (induction clusters arbitrary: s) (simp_all add: record_cluster_def insert_entry_def index_entry_def)

lemma search_clusters_warnings:
  "filter is_warning (logged (search_clusters zone clusters s)) = filter is_warning (logged s)"
  by (induction clusters arbitrary: s) (simp_all add: record_cluster_def)

lemma search_zones_channel:
  "channel (search_zones client zones s) = channel s @ map found_event (traversal client zones)"
proof (induction zones arbitrary: s)
  case Nil
  show ?case by (simp add: traversal_Nil)
next
  case (Cons zone rest)
  show ?case
  proof (cases "ListSKSClusters client (zone_APIEndpoint zone)")
    case (Inl err)
    then show ?thesis
      by (simp add: Cons.IH traversal_Cons listed_def Let_def)
  next
    case (Inr clusters)
    then show ?thesis
      by (simp add: Cons.IH traversal_Cons listed_def Let_def search_clusters_channel comp_def)
  qed
qed

lemma search_zones_index:
  "DiscoveredClusters (search_zones client zones s) =
     fold insert_entry (traversal client zones) (DiscoveredClusters s)"
proof (induction zones arbitrary: s)
  case Nil
  show ?case by (simp add: traversal_Nil)
next
  case (Cons zone rest)
  show ?case
  proof (cases "ListSKSClusters client (zone_APIEndpoint zone)")
    case (Inl err)
    then show ?thesis
      by (simp add: Cons.IH traversal_Cons listed_def Let_def)
  next
    case (Inr clusters)
    then show ?thesis
      by (simp add: Cons.IH traversal_Cons listed_def Let_def search_clusters_index)
  qed
qed

lemma search_zones_warnings:
  "filter is_warning (logged (search_zones client zones s)) =
     filter is_warning (logged s) @ failures client zones"
proof (induction zones arbitrary: s)
  case Nil
  show ?case by (simp add: failures_Nil)
next
  case (Cons zone rest)
  show ?case
  proof (cases "ListSKSClusters client (zone_APIEndpoint zone)")
    case (Inl err)
    then show ?thesis
      by (simp add: Cons.IH failures_Cons Let_def)
  next
    case (Inr clusters)
    then show ?thesis
      by (simp add: Cons.IH failures_Cons Let_def search_clusters_warnings)
  qed
qed

lemma StartSearch_channel:
  "ListZones client = Inr zones \<Longrightarrow>
   channel (StartSearch client s) = channel s @ map found_event (traversal client zones)"
  by (simp add: StartSearch_def Let_def search_zones_channel traversal_Nil)

lemma StartSearch_index:
  "ListZones client = Inr zones \<Longrightarrow>
   DiscoveredClusters (StartSearch client s) =
     fold insert_entry (traversal client zones) (DiscoveredClusters s)"
  by (simp add: StartSearch_def Let_def search_zones_index traversal_Nil)

lemma StartSearch_warnings:
  "ListZones client = Inr zones \<Longrightarrow>
   filter is_warning (logged (StartSearch client s)) = filter is_warning (logged s) @ failures client zones"
  by (simp add: StartSearch_def Let_def search_zones_warnings failures_Nil)

lemma fold_insert_entry_other:
  "i \<notin> set (map (sks_ID \<circ> snd) zcs) \<Longrightarrow> fold insert_entry zcs idx i = idx i"
  by (induction zcs arbitrary: idx) (simp_all add: insert_entry_def)

lemma fold_insert_entry_last:
  "sks_ID (snd zc) \<notin> set (map (sks_ID \<circ> snd) post) \<Longrightarrow>
   fold insert_entry (pre @ zc # post) idx (sks_ID (snd zc)) = Some (index_entry zc)"
  by (simp add: fold_insert_entry_other) (simp add: insert_entry_def)

lemma fold_insert_entry_dom:
  "dom (fold insert_entry zcs idx) = dom idx \<union> set (map (sks_ID \<circ> snd) zcs)"
  by (induction zcs arbitrary: idx) (auto simp: insert_entry_def)


text \<open>
  C4. When the zone listing fails, a pass sends exactly one event, which carries the
  failure as its error (so it is no success event), and leaves the index as it was.
\<close>
theorem StartSearch_zone_listing_fails:
  assumes "ListZones client = Inl err"
  shows "channel (StartSearch client s) =
           channel s @ [\<lparr>KubeconfigPath = '''', Error = Some (FailedToListZones err)\<rparr>]
         \<and> DiscoveredClusters (StartSearch client s) = DiscoveredClusters s"
  using assms by (simp add: StartSearch_def Let_def)

theorem StartSearch_zone_listing_fails_witness:
  "ListZones unreachable_client = Inl ''unauthorized''
   \<and> channel (StartSearch unreachable_client init_state) =
        [\<lparr>KubeconfigPath = '''', Error = Some (FailedToListZones ''unauthorized'')\<rparr>]
   \<and> DiscoveredClusters (StartSearch unreachable_client init_state) = Map.empty"
proof -
  have fails: "ListZones unreachable_client = Inl ''unauthorized''"
    by (simp add: unreachable_client_def)
  show ?thesis
    using fails StartSearch_zone_listing_fails [OF fails, of init_state]
    by (simp add: init_state_def)
qed

lemma traversal_append:
  "traversal client (before @ after) = traversal client before @ traversal client after"
  by (simp add: traversal_def)

lemma traversal_all_listed:
  assumes "\<forall>zone \<in> set zones. \<exists>clusters. ListSKSClusters client (zone_APIEndpoint zone) = Inr clusters"
  shows "traversal client zones =
           concat (map (\<lambda>zone. map (Pair zone) (projr (ListSKSClusters client (zone_APIEndpoint zone)))) zones)"
  using assms by (induction zones) (auto simp: traversal_Nil traversal_Cons listed_def)

lemma found_event_sent:
  assumes "ListZones client = Inr zones" and "zone \<in> set zones"
    and "ListSKSClusters client (zone_APIEndpoint zone) = Inr clusters" and "cluster \<in> set clusters"
  shows "found_event (zone, cluster) \<in> set (channel (StartSearch client s))"
proof -
  have "listed client zone = clusters"
    using assms(3) by (simp add: listed_def)
  with assms(4) have "(zone, cluster) \<in> set (map (Pair zone) (listed client zone))"
    by simp
  moreover from assms(2) obtain before after where "zones = before @ zone # after"
    by (auto dest: split_list)
  ultimately have "(zone, cluster) \<in> set (traversal client zones)"
    by (simp add: traversal_append traversal_Cons)
  then show ?thesis
    by (simp add: StartSearch_channel [OF assms(1)])
qed

text \<open>
  C5. When the zone listing succeeds, the events of a pass are the success events of the
  traversal, that is of the clusters of the zones whose listing call did not fail, one for
  each cluster and in order: every cluster of a non-failing zone has its event on the
  channel, every event of the pass has no error, and the warnings logged are exactly one for
  each failing zone.
\<close>
theorem StartSearch_zone_failures_logged:
  assumes zones: "ListZones client = Inr zones"
  shows "channel (StartSearch client s) = channel s @ map found_event (traversal client zones)
         \<and> (\<forall>zone \<in> set zones. \<forall>clusters.
               ListSKSClusters client (zone_APIEndpoint zone) = Inr clusters \<longrightarrow>
               (\<forall>cluster \<in> set clusters. found_event (zone, cluster) \<in> set (channel (StartSearch client s))))
         \<and> (\<forall>event \<in> set (map found_event (traversal client zones)). Error event = None)
         \<and> filter is_warning (logged (StartSearch client s)) =
             filter is_warning (logged s) @ failures client zones"
proof -
  have sent: "channel (StartSearch client s) = channel s @ map found_event (traversal client zones)"
    using zones by (rule StartSearch_channel)
  have each: "\<forall>zone \<in> set zones. \<forall>clusters.
               ListSKSClusters client (zone_APIEndpoint zone) = Inr clusters \<longrightarrow>
               (\<forall>cluster \<in> set clusters. found_event (zone, cluster) \<in> set (channel (StartSearch client s)))"
    using found_event_sent [OF zones] by blast
  have success: "\<forall>event \<in> set (map found_event (traversal client zones)). Error event = None"
    by (auto simp: found_event_def)
  have warned: "filter is_warning (logged (StartSearch client s)) =
             filter is_warning (logged s) @ failures client zones"
    using zones by (rule StartSearch_warnings)
  from sent each success warned show ?thesis by blast
qed

lemma index_own_entry:
  assumes zones: "ListZones client = Inr zones"
    and split: "traversal client zones = pre @ zc # post"
    and last: "sks_ID (snd zc) \<notin> set (map (sks_ID \<circ> snd) post)"
  shows "DiscoveredClusters (StartSearch client s) (sks_ID (snd zc)) = Some (index_entry zc)"
  by (simp only: StartSearch_index [OF zones] split fold_insert_entry_last [OF last])

text \<open>
  C6, as amended. After a pass in which no listing call failed, the traversal holds every
  cluster of every zone; exactly one success event with path \<open>zoneName/name\<close> was
  sent for each of them, in zone order and cluster order within a zone; the index has an
  entry under the id of each of them, and that entry is the one of the last cluster listed
  with that id. When no two listed clusters share an id, the index holds the entry
  \<open>{id, name, zoneName, zoneEndpoint}\<close> of every cluster.
\<close>
theorem StartSearch_all_zones_listed:
  assumes zones: "ListZones client = Inr zones"
    and healthy: "\<forall>zone \<in> set zones. \<exists>clusters. ListSKSClusters client (zone_APIEndpoint zone) = Inr clusters"
  shows "traversal client zones =
           concat (map (\<lambda>zone. map (Pair zone) (projr (ListSKSClusters client (zone_APIEndpoint zone)))) zones)
         \<and> channel (StartSearch client s) = channel s @ map found_event (traversal client zones)
         \<and> (\<forall>zc \<in> set (traversal client zones).
               sks_ID (snd zc) \<in> dom (DiscoveredClusters (StartSearch client s)))
         \<and> (\<forall>pre zc post.
               traversal client zones = pre @ zc # post \<and> sks_ID (snd zc) \<notin> set (map (sks_ID \<circ> snd) post) \<longrightarrow>
               DiscoveredClusters (StartSearch client s) (sks_ID (snd zc)) = Some (index_entry zc))
         \<and> (distinct (map (sks_ID \<circ> snd) (traversal client zones)) \<longrightarrow>
               (\<forall>zc \<in> set (traversal client zones).
                  DiscoveredClusters (StartSearch client s) (sks_ID (snd zc)) = Some (index_entry zc)))"
proof -
  have all: "traversal client zones =
           concat (map (\<lambda>zone. map (Pair zone) (projr (ListSKSClusters client (zone_APIEndpoint zone)))) zones)"
    using healthy by (rule traversal_all_listed)
  have sent: "channel (StartSearch client s) = channel s @ map found_event (traversal client zones)"
    using zones by (rule StartSearch_channel)
  have keys: "\<forall>zc \<in> set (traversal client zones).
               sks_ID (snd zc) \<in> dom (DiscoveredClusters (StartSearch client s))"
    by (simp add: StartSearch_index [OF zones] fold_insert_entry_dom)
  have last: "\<forall>pre zc post.
               traversal client zones = pre @ zc # post \<and> sks_ID (snd zc) \<notin> set (map (sks_ID \<circ> snd) post) \<longrightarrow>
               DiscoveredClusters (StartSearch client s) (sks_ID (snd zc)) = Some (index_entry zc)"
    using index_own_entry [OF zones] by blast
  have own: "DiscoveredClusters (StartSearch client s) (sks_ID (snd zc)) = Some (index_entry zc)"
    if unique: "distinct (map (sks_ID \<circ> snd) (traversal client zones))"
      and member: "zc \<in> set (traversal client zones)" for zc
  proof -
    from member obtain pre post where split: "traversal client zones = pre @ zc # post"
      by (auto dest: split_list)
    with unique have "sks_ID (snd zc) \<notin> set (map (sks_ID \<circ> snd) post)"
      by simp
    with zones split show ?thesis by (rule index_own_entry)
  qed
  from all sent keys last own show ?thesis by blast
qed

text \<open>
  C8, as amended. The index is keyed by the cluster id. When the listing of one zone
  returns two clusters with the same id, and no cluster listed after the later one in the
  pass has that id again, the index holds under that id the entry of the later cluster.
\<close>
theorem StartSearch_same_id_overwrites:
  assumes zones: "ListZones client = Inr (before @ zone # after)"
    and listing: "ListSKSClusters client (zone_APIEndpoint zone) = Inr (cs1 @ earlier # cs2 @ later # cs3)"
    and same: "sks_ID earlier = sks_ID later"
    and rest: "sks_ID later \<notin> set (map sks_ID cs3)"
    and others: "sks_ID later \<notin> set (map (sks_ID \<circ> snd) (traversal client after))"
  shows "DiscoveredClusters (StartSearch client s) (sks_ID earlier) = Some (index_entry (zone, later))"
proof -
  let ?pre = "traversal client before @ map (Pair zone) (cs1 @ earlier # cs2)"
  let ?post = "map (Pair zone) cs3 @ traversal client after"
  have "listed client zone = cs1 @ earlier # cs2 @ later # cs3"
    using listing by (simp add: listed_def)
  then have split: "traversal client (before @ zone # after) = ?pre @ (zone, later) # ?post"
    by (simp add: traversal_append traversal_Cons)
  have last: "sks_ID (snd (zone, later)) \<notin> set (map (sks_ID \<circ> snd) ?post)"
    using rest others by (auto simp: comp_def)
  from index_own_entry [OF zones split last] same show ?thesis by simp
qed

lemmas example_zones = gva_zone_def fra_zone_def vie_zone_def

lemma partial_zones: "ListZones partial_client = Inr [gva_zone, fra_zone, vie_zone]"
  by (simp add: partial_client_def listing_client_def)

lemma partial_traversal:
  "traversal partial_client [gva_zone, fra_zone, vie_zone] =
     [(gva_zone, \<lparr>sks_ID = ''abc-123'', sks_Name = ''mycluster''\<rparr>),
      (vie_zone, \<lparr>sks_ID = ''def-456'', sks_Name = ''staging''\<rparr>)]"
  by (simp add: traversal_def listed_def partial_client_def listing_client_def example_zones)

lemma partial_failures:
  "failures partial_client [gva_zone, fra_zone, vie_zone] = [WarnListFailed ''timeout'' ''de-fra-1'']"
  by (simp add: failures_def partial_client_def listing_client_def example_zones)

text \<open>
  Three zones, the second of which fails: the clusters of the first and the third are
  reported, and one warning is logged.
\<close>
theorem StartSearch_zone_failures_logged_witness:
  "ListZones partial_client = Inr [gva_zone, fra_zone, vie_zone]
   \<and> ListSKSClusters partial_client (zone_APIEndpoint fra_zone) = Inl ''timeout''
   \<and> channel (StartSearch partial_client init_state) =
       [\<lparr>KubeconfigPath = ''ch-gva-2/mycluster'', Error = None\<rparr>,
        \<lparr>KubeconfigPath = ''at-vie-1/staging'', Error = None\<rparr>]
   \<and> filter is_warning (logged (StartSearch partial_client init_state)) =
       [WarnListFailed ''timeout'' ''de-fra-1'']"
proof -
  have fails: "ListSKSClusters partial_client (zone_APIEndpoint fra_zone) = Inl ''timeout''"
    by (simp add: partial_client_def listing_client_def fra_zone_def)
  from StartSearch_zone_failures_logged [OF partial_zones, of init_state]
  have sent: "channel (StartSearch partial_client init_state) =
      channel init_state @ map found_event (traversal partial_client [gva_zone, fra_zone, vie_zone])"
    and warned: "filter is_warning (logged (StartSearch partial_client init_state)) =
      filter is_warning (logged init_state) @ failures partial_client [gva_zone, fra_zone, vie_zone]"
    by blast+
  have events: "channel (StartSearch partial_client init_state) =
       [\<lparr>KubeconfigPath = ''ch-gva-2/mycluster'', Error = None\<rparr>,
        \<lparr>KubeconfigPath = ''at-vie-1/staging'', Error = None\<rparr>]"
    unfolding sent partial_traversal by (simp add: init_state_def found_event_def example_zones)
  have warnings: "filter is_warning (logged (StartSearch partial_client init_state)) =
       [WarnListFailed ''timeout'' ''de-fra-1'']"
    unfolding warned partial_failures by (simp add: init_state_def)
  from partial_zones fails events warnings show ?thesis by simp
qed

lemma healthy_zones: "ListZones healthy_client = Inr [gva_zone, vie_zone]"
  by (simp add: healthy_client_def listing_client_def)

lemma healthy_gva:
  "ListSKSClusters healthy_client (zone_APIEndpoint gva_zone) =
     Inr [\<lparr>sks_ID = ''abc-123'', sks_Name = ''mycluster''\<rparr>, \<lparr>sks_ID = ''abc-789'', sks_Name = ''batch''\<rparr>]"
  by (simp add: healthy_client_def listing_client_def gva_zone_def)

lemma healthy_vie:
  "ListSKSClusters healthy_client (zone_APIEndpoint vie_zone) =
     Inr [\<lparr>sks_ID = ''def-456'', sks_Name = ''staging''\<rparr>]"
  by (simp add: healthy_client_def listing_client_def vie_zone_def)

lemma healthy_traversal:
  "traversal healthy_client [gva_zone, vie_zone] =
     [(gva_zone, \<lparr>sks_ID = ''abc-123'', sks_Name = ''mycluster''\<rparr>),
      (gva_zone, \<lparr>sks_ID = ''abc-789'', sks_Name = ''batch''\<rparr>),
      (vie_zone, \<lparr>sks_ID = ''def-456'', sks_Name = ''staging''\<rparr>)]"
  by (simp add: traversal_def listed_def healthy_gva healthy_vie)

text \<open>Two zones with three clusters of distinct ids.\<close>
theorem StartSearch_all_zones_listed_witness:
  "ListZones healthy_client = Inr [gva_zone, vie_zone]
   \<and> ListSKSClusters healthy_client (zone_APIEndpoint gva_zone) =
       Inr [\<lparr>sks_ID = ''abc-123'', sks_Name = ''mycluster''\<rparr>, \<lparr>sks_ID = ''abc-789'', sks_Name = ''batch''\<rparr>]
   \<and> ListSKSClusters healthy_client (zone_APIEndpoint vie_zone) =
       Inr [\<lparr>sks_ID = ''def-456'', sks_Name = ''staging''\<rparr>]
   \<and> channel (StartSearch healthy_client init_state) =
       [\<lparr>KubeconfigPath = ''ch-gva-2/mycluster'', Error = None\<rparr>,
        \<lparr>KubeconfigPath = ''ch-gva-2/batch'', Error = None\<rparr>,
        \<lparr>KubeconfigPath = ''at-vie-1/staging'', Error = None\<rparr>]
   \<and> DiscoveredClusters (StartSearch healthy_client init_state) ''abc-123'' =
       Some \<lparr>ID = ''abc-123'', Name = ''mycluster'', ZoneName = ''ch-gva-2'',
             ZoneEndpoint = ''https://api-ch-gva-2''\<rparr>
   \<and> DiscoveredClusters (StartSearch healthy_client init_state) ''abc-789'' =
       Some \<lparr>ID = ''abc-789'', Name = ''batch'', ZoneName = ''ch-gva-2'',
             ZoneEndpoint = ''https://api-ch-gva-2''\<rparr>
   \<and> DiscoveredClusters (StartSearch healthy_client init_state) ''def-456'' =
       Some \<lparr>ID = ''def-456'', Name = ''staging'', ZoneName = ''at-vie-1'',
             ZoneEndpoint = ''https://api-at-vie-1''\<rparr>"
proof -
  have healthy: "\<forall>zone \<in> set [gva_zone, vie_zone].
      \<exists>clusters. ListSKSClusters healthy_client (zone_APIEndpoint zone) = Inr clusters"
    by (simp add: healthy_gva healthy_vie)
  have unique: "distinct (map (sks_ID \<circ> snd) (traversal healthy_client [gva_zone, vie_zone]))"
    by (simp add: healthy_traversal)
  from StartSearch_all_zones_listed [OF healthy_zones healthy, of init_state] unique
  have sent: "channel (StartSearch healthy_client init_state) =
      channel init_state @ map found_event (traversal healthy_client [gva_zone, vie_zone])"
    and own: "\<forall>zc \<in> set (traversal healthy_client [gva_zone, vie_zone]).
      DiscoveredClusters (StartSearch healthy_client init_state) (sks_ID (snd zc)) = Some (index_entry zc)"
    by blast+
  have events: "channel (StartSearch healthy_client init_state) =
       [\<lparr>KubeconfigPath = ''ch-gva-2/mycluster'', Error = None\<rparr>,
        \<lparr>KubeconfigPath = ''ch-gva-2/batch'', Error = None\<rparr>,
        \<lparr>KubeconfigPath = ''at-vie-1/staging'', Error = None\<rparr>]"
    unfolding sent healthy_traversal by (simp add: init_state_def found_event_def example_zones)
  from own have entries:
    "DiscoveredClusters (StartSearch healthy_client init_state) ''abc-123'' =
       Some \<lparr>ID = ''abc-123'', Name = ''mycluster'', ZoneName = ''ch-gva-2'',
             ZoneEndpoint = ''https://api-ch-gva-2''\<rparr>"
    "DiscoveredClusters (StartSearch healthy_client init_state) ''abc-789'' =
       Some \<lparr>ID = ''abc-789'', Name = ''batch'', ZoneName = ''ch-gva-2'',
             ZoneEndpoint = ''https://api-ch-gva-2''\<rparr>"
    "DiscoveredClusters (StartSearch healthy_client init_state) ''def-456'' =
       Some \<lparr>ID = ''def-456'', Name = ''staging'', ZoneName = ''at-vie-1'',
             ZoneEndpoint = ''https://api-at-vie-1''\<rparr>"
    unfolding healthy_traversal by (simp_all add: index_entry_def example_zones)
  from healthy_zones healthy_gva healthy_vie events entries show ?thesis by simp
qed

lemma mirrored_zones: "ListZones mirrored_client = Inr [gva_zone, vie_zone]"
  by (simp add: mirrored_client_def listing_client_def)

lemma mirrored_traversal:
  "traversal mirrored_client [gva_zone, vie_zone] =
     [(gva_zone, \<lparr>sks_ID = ''abc-123'', sks_Name = ''mycluster''\<rparr>),
      (vie_zone, \<lparr>sks_ID = ''abc-123'', sks_Name = ''mycluster''\<rparr>)]"
  by (simp add: traversal_def listed_def mirrored_client_def listing_client_def)

text \<open>
  C6 as stated fails when two listed clusters share an id: the index is keyed by the id,
  so the entry of the first is replaced. Here both zones list the cluster \<open>abc-123\<close>;
  no listing call fails, and after the pass the index has no entry for it in the first zone.
\<close>
theorem StartSearch_shared_id_across_zones:
  "ListZones mirrored_client = Inr [gva_zone, vie_zone]
   \<and> ListSKSClusters mirrored_client (zone_APIEndpoint gva_zone) =
       Inr [\<lparr>sks_ID = ''abc-123'', sks_Name = ''mycluster''\<rparr>]
   \<and> ListSKSClusters mirrored_client (zone_APIEndpoint vie_zone) =
       Inr [\<lparr>sks_ID = ''abc-123'', sks_Name = ''mycluster''\<rparr>]
   \<and> DiscoveredClusters (StartSearch mirrored_client init_state) =
       [''abc-123'' \<mapsto> \<lparr>ID = ''abc-123'', Name = ''mycluster'', ZoneName = ''at-vie-1'',
                         ZoneEndpoint = ''https://api-at-vie-1''\<rparr>]
   \<and> \<lparr>ID = ''abc-123'', Name = ''mycluster'', ZoneName = ''ch-gva-2'',
       ZoneEndpoint = ''https://api-ch-gva-2''\<rparr>
       \<notin> ran (DiscoveredClusters (StartSearch mirrored_client init_state))"
proof -
  have listing:
    "ListSKSClusters mirrored_client (zone_APIEndpoint gva_zone) =
       Inr [\<lparr>sks_ID = ''abc-123'', sks_Name = ''mycluster''\<rparr>]"
    "ListSKSClusters mirrored_client (zone_APIEndpoint vie_zone) =
       Inr [\<lparr>sks_ID = ''abc-123'', sks_Name = ''mycluster''\<rparr>]"
    by (simp_all add: mirrored_client_def listing_client_def)
  have index: "DiscoveredClusters (StartSearch mirrored_client init_state) =
       [''abc-123'' \<mapsto> \<lparr>ID = ''abc-123'', Name = ''mycluster'', ZoneName = ''at-vie-1'',
                         ZoneEndpoint = ''https://api-at-vie-1''\<rparr>]"
    unfolding StartSearch_index [OF mirrored_zones] mirrored_traversal
    by (simp add: insert_entry_def index_entry_def init_state_def example_zones)
  have missing: "\<lparr>ID = ''abc-123'', Name = ''mycluster'', ZoneName = ''ch-gva-2'',
       ZoneEndpoint = ''https://api-ch-gva-2''\<rparr>
       \<notin> ran (DiscoveredClusters (StartSearch mirrored_client init_state))"
    unfolding index by simp
  from mirrored_zones listing index missing show ?thesis by simp
qed

lemma namesake_zones: "ListZones namesake_client = Inr [gva_zone]"
  by (simp add: namesake_client_def listing_client_def)

lemma namesake_traversal:
  "traversal namesake_client [gva_zone] =
     [(gva_zone, \<lparr>sks_ID = ''abc-123'', sks_Name = ''mycluster''\<rparr>),
      (gva_zone, \<lparr>sks_ID = ''def-456'', sks_Name = ''mycluster''\<rparr>)]"
  by (simp add: traversal_def listed_def namesake_client_def listing_client_def)

text \<open>
  C8 as stated fails: two clusters of one zone with the same name and different ids are
  both kept, so the index has two entries for that name in that zone.
\<close>
theorem StartSearch_same_name_keeps_both:
  "ListZones namesake_client = Inr [gva_zone]
   \<and> ListSKSClusters namesake_client (zone_APIEndpoint gva_zone) =
       Inr [\<lparr>sks_ID = ''abc-123'', sks_Name = ''mycluster''\<rparr>,
            \<lparr>sks_ID = ''def-456'', sks_Name = ''mycluster''\<rparr>]
   \<and> DiscoveredClusters (StartSearch namesake_client init_state) ''abc-123'' =
       Some \<lparr>ID = ''abc-123'', Name = ''mycluster'', ZoneName = ''ch-gva-2'',
             ZoneEndpoint = ''https://api-ch-gva-2''\<rparr>
   \<and> DiscoveredClusters (StartSearch namesake_client init_state) ''def-456'' =
       Some \<lparr>ID = ''def-456'', Name = ''mycluster'', ZoneName = ''ch-gva-2'',
             ZoneEndpoint = ''https://api-ch-gva-2''\<rparr>"
proof -
  have listing: "ListSKSClusters namesake_client (zone_APIEndpoint gva_zone) =
       Inr [\<lparr>sks_ID = ''abc-123'', sks_Name = ''mycluster''\<rparr>,
            \<lparr>sks_ID = ''def-456'', sks_Name = ''mycluster''\<rparr>]"
    by (simp add: namesake_client_def listing_client_def)
  have index: "DiscoveredClusters (StartSearch namesake_client init_state) =
      [''abc-123'' \<mapsto> \<lparr>ID = ''abc-123'', Name = ''mycluster'', ZoneName = ''ch-gva-2'',
                        ZoneEndpoint = ''https://api-ch-gva-2''\<rparr>,
       ''def-456'' \<mapsto> \<lparr>ID = ''def-456'', Name = ''mycluster'', ZoneName = ''ch-gva-2'',
                        ZoneEndpoint = ''https://api-ch-gva-2''\<rparr>]"
    unfolding StartSearch_index [OF namesake_zones] namesake_traversal
    by (simp add: insert_entry_def index_entry_def init_state_def example_zones)
  from namesake_zones listing show ?thesis
    unfolding index by simp
qed

text \<open>One zone lists the id \<open>abc-123\<close> twice, under two names: the second name stays.\<close>
theorem StartSearch_same_id_overwrites_witness:
  "ListZones relisted_client = Inr ([] @ gva_zone # [])
   \<and> ListSKSClusters relisted_client (zone_APIEndpoint gva_zone) =
       Inr ([] @ \<lparr>sks_ID = ''abc-123'', sks_Name = ''mycluster''\<rparr> # [] @
            \<lparr>sks_ID = ''abc-123'', sks_Name = ''renamed''\<rparr> # [])
   \<and> DiscoveredClusters (StartSearch relisted_client init_state) ''abc-123'' =
       Some \<lparr>ID = ''abc-123'', Name = ''renamed'', ZoneName = ''ch-gva-2'',
             ZoneEndpoint = ''https://api-ch-gva-2''\<rparr>"
proof -
  let ?earlier = "\<lparr>sks_ID = ''abc-123'', sks_Name = ''mycluster''\<rparr>"
  let ?later = "\<lparr>sks_ID = ''abc-123'', sks_Name = ''renamed''\<rparr>"
  have zones: "ListZones relisted_client = Inr ([] @ gva_zone # [])"
    by (simp add: relisted_client_def listing_client_def)
  have listing: "ListSKSClusters relisted_client (zone_APIEndpoint gva_zone) =
       Inr ([] @ ?earlier # [] @ ?later # [])"
    by (simp add: relisted_client_def listing_client_def)
  have same: "sks_ID ?earlier = sks_ID ?later"
    by simp
  have rest: "sks_ID ?later \<notin> set (map sks_ID [])"
    by simp
  have others: "sks_ID ?later \<notin> set (map (sks_ID \<circ> snd) (traversal relisted_client []))"
    by (simp add: traversal_Nil)
  from StartSearch_same_id_overwrites [OF zones listing same rest others, of init_state]
  have "DiscoveredClusters (StartSearch relisted_client init_state) ''abc-123'' =
       Some \<lparr>ID = ''abc-123'', Name = ''renamed'', ZoneName = ''ch-gva-2'',
             ZoneEndpoint = ''https://api-ch-gva-2''\<rparr>"
    by (simp add: index_entry_def gva_zone_def)
  with zones listing show ?thesis by blast
qed

section \<open>Credentials: the path, the request and the identity rewrite\<close>

lemma SplitN_2:
  "SplitN s sep 2 =
     (if sep \<in> set s then [takeWhile (\<lambda>c. c \<noteq> sep) s, tl (dropWhile (\<lambda>c. c \<noteq> sep) s)] else [s])"
  by (simp add: numeral_2_eq_2)

lemma SplitN_2_join:
  "sep \<notin> set zoneName \<Longrightarrow> SplitN (zoneName @ sep # clusterName) sep 2 = [zoneName, clusterName]"
proof -
  assume "sep \<notin> set zoneName"
  then have all: "\<forall>c \<in> set zoneName. c \<noteq> sep" by auto
  have "takeWhile (\<lambda>c. c \<noteq> sep) (zoneName @ sep # clusterName) = zoneName"
    using all by (simp add: takeWhile_tail)
  moreover have "dropWhile (\<lambda>c. c \<noteq> sep) (zoneName @ sep # clusterName) = sep # clusterName"
    using all by (simp add: dropWhile_append3)
  ultimately show ?thesis by (simp add: SplitN_2)
qed

lemma range_order_single:
  assumes "range_order m ks" and "dom m = {k}"
  shows "ks = [k]"
proof (cases ks)
  case Nil
  with assms show ?thesis by (simp add: range_order_def)
next
  case (Cons a rest)
  with assms have "a = k" and "set rest \<subseteq> {k}" and "a \<notin> set rest"
    by (auto simp: range_order_def)
  then have "rest = []" by (cases rest) auto
  with Cons \<open>a = k\<close> show ?thesis by simp
qed

lemma range_order_empty: "range_order m ks \<Longrightarrow> m = Map.empty \<Longrightarrow> ks = []"
  by (simp add: range_order_def)

lemma oldClusterName_in_dom:
  "range_order m ks \<Longrightarrow> m \<noteq> Map.empty \<Longrightarrow> oldClusterName ks \<in> dom m"
  by (cases ks) (auto simp: range_order_def oldClusterName_def)

lemma fetch_kubeconfig_index:
  "DiscoveredClusters (snd (fetch_kubeconfig client codec io path s)) = DiscoveredClusters s"
  by (simp add: fetch_kubeconfig_def Let_def split: list.split option.split sum.split)

lemma GetKubeconfigForPath_state:
  "snd (GetKubeconfigForPath client codec io ko path extra s) = snd (fetch_kubeconfig client codec io path s)"
  by (cases "fetch_kubeconfig client codec io path s")
     (auto simp: GetKubeconfigForPath_def split: sum.split)

lemma GetKubeconfigForPath_error:
  "fst (GetKubeconfigForPath client codec io ko path extra s) = Inl (InvalidClusterPath p)
     \<longleftrightarrow> fst (fetch_kubeconfig client codec io path s) = Inl (InvalidClusterPath p)"
  by (cases "fetch_kubeconfig client codec io path s")
     (auto simp: GetKubeconfigForPath_def split: sum.split)

text \<open>
  C10. Whatever the path, the extra context, the index and the behaviour of the provider
  and of the codec, and whether bytes or an error are returned, the index after the call
  is the index before it.
\<close>
theorem GetKubeconfigForPath_index_unchanged:
  "DiscoveredClusters (snd (GetKubeconfigForPath client codec io ko path extra s)) = DiscoveredClusters s"
  by (simp add: GetKubeconfigForPath_state fetch_kubeconfig_index)

lemma fetch_kubeconfig_invalid:
  "fst (fetch_kubeconfig client codec io path s) = Inl (InvalidClusterPath p)
     \<longleftrightarrow> CHR ''/'' \<notin> set path \<and> p = path"
  by (auto simp: fetch_kubeconfig_def SplitN_2 Let_def split: option.split sum.split)

text \<open>
  C3, as amended. The call returns the invalid-path error, and that error names the path,
  exactly when the path contains no separator. A path with more separators is split at the
  first one (\<open>SplitN_2_join\<close>) and is not rejected as invalid.
\<close>
theorem GetKubeconfigForPath_invalid_path:
  "fst (GetKubeconfigForPath client codec io ko path extra s) = Inl (InvalidClusterPath p)
     \<longleftrightarrow> CHR ''/'' \<notin> set path \<and> p = path"
  by (simp add: GetKubeconfigForPath_error fetch_kubeconfig_invalid)

lemma find_match_sound:
  "find_match ks idx zoneName clusterName = Some m \<Longrightarrow>
   m \<in> ran idx \<and> ZoneName m = zoneName \<and> Name m = clusterName"
  by (induction ks) (auto simp: ran_def split: option.splits if_splits)

lemma fetch_kubeconfig_requests:
  assumes "SplitN path (CHR ''/'') 2 = [zoneName, clusterName]"
    and "find_match io (DiscoveredClusters s) zoneName clusterName = Some m"
  shows "requests (snd (fetch_kubeconfig client codec io path s)) =
           requests s @ [CallGenerateSKSClusterKubeconfig (ZoneEndpoint m) (ID m)
                           \<lparr>Groups = [''system:masters''], User = ''default'', Ttl = 2592000\<rparr>]"
  using assms by (simp add: fetch_kubeconfig_def Let_def split: sum.split)

text \<open>
  C9. When the path resolves to the index entry \<open>m\<close> (an entry of the index whose zone
  and name are the two segments of the path), the call adds exactly one request to those
  issued before: the kubeconfig of the cluster \<open>ID m\<close> at the endpoint
  \<open>ZoneEndpoint m\<close>, for the group \<open>system:masters\<close>, the user \<open>default\<close> and
  2592000 seconds.
\<close>
theorem GetKubeconfigForPath_request:
  assumes "SplitN path (CHR ''/'') 2 = [zoneName, clusterName]"
    and "find_match io (DiscoveredClusters s) zoneName clusterName = Some m"
  shows "requests (snd (GetKubeconfigForPath client codec io ko path extra s)) =
           requests s @ [CallGenerateSKSClusterKubeconfig (ZoneEndpoint m) (ID m)
                           \<lparr>Groups = [''system:masters''], User = ''default'', Ttl = 2592000\<rparr>]
         \<and> m \<in> ran (DiscoveredClusters s) \<and> ZoneName m = zoneName \<and> Name m = clusterName"
  using fetch_kubeconfig_requests [OF assms] find_match_sound [OF assms(2)]
  by (simp add: GetKubeconfigForPath_state)

lemma rename_identity_unfold:
  "rename_identity ks clusterName cfg =
     move_current_context (oldClusterName ks) clusterName
       (move_context (oldClusterName ks) clusterName (move_cluster (oldClusterName ks) clusterName cfg))"
  by (simp add: rename_identity_def Let_def)

lemma singleton_map_moved:
  assumes "dom m = {old}" and "new \<noteq> old"
  shows "(m(new \<mapsto> w))(old := None) = [new \<mapsto> w]"
proof (rule ext)
  fix k
  have "k \<noteq> old \<Longrightarrow> m k = None" using assms(1) by blast
  then show "((m(new \<mapsto> w))(old := None)) k = [new \<mapsto> w] k"
    using assms(2) by (cases "k = old") simp_all
qed

lemma move_cluster_present:
  "Clusters cfg old = Some c \<Longrightarrow>
   move_cluster old new cfg = cfg\<lparr>Clusters := ((Clusters cfg)(new \<mapsto> c))(old := None)\<rparr>"
  by (simp add: move_cluster_def)

lemma move_cluster_absent: "Clusters cfg old = None \<Longrightarrow> move_cluster old new cfg = cfg"
  by (simp add: move_cluster_def)

lemma move_context_present:
  "Contexts cfg old = Some ctx \<Longrightarrow>
   move_context old new cfg =
     cfg\<lparr>Contexts := ((Contexts cfg)(new \<mapsto> ctx\<lparr>Cluster := new\<rparr>))(old := None)\<rparr>"
  by (simp add: move_context_def)

lemma move_context_absent: "Contexts cfg old = None \<Longrightarrow> move_context old new cfg = cfg"
  by (simp add: move_context_def)

text \<open>
  C1. A document whose only cluster key is \<open>abc-123\<close>, whose only context key is
  \<open>abc-123\<close> with the cluster reference \<open>abc-123\<close>, and whose current context is
  \<open>abc-123\<close>, rewritten for the name \<open>mycluster\<close>: the only cluster key is
  \<open>mycluster\<close> with the same value, the only context key is \<open>mycluster\<close> with the
  cluster reference \<open>mycluster\<close> and its other fields as before, the current context is
  \<open>mycluster\<close>, and the user entries and every other field of the document are unchanged.
\<close>
theorem rename_identity_provider_document:
  assumes clusters: "dom (Clusters cfg) = {''abc-123''}" "Clusters cfg ''abc-123'' = Some c"
    and contexts: "dom (Contexts cfg) = {''abc-123''}" "Contexts cfg ''abc-123'' = Some ctx"
    and ref: "Cluster ctx = ''abc-123''"
    and current: "CurrentContext cfg = ''abc-123''"
    and order: "range_order (Clusters cfg) ks"
  shows "rename_identity ks ''mycluster'' cfg =
           cfg\<lparr>Clusters := [''mycluster'' \<mapsto> c],
               Contexts := [''mycluster'' \<mapsto> ctx\<lparr>Cluster := ''mycluster''\<rparr>],
               CurrentContext := ''mycluster''\<rparr>"
proof -
  have ks: "oldClusterName ks = ''abc-123''"
    using range_order_single [OF order clusters(1)] by (simp add: oldClusterName_def)
  have differ: "''mycluster'' \<noteq> ''abc-123''" by simp
  let ?cfg1 = "cfg\<lparr>Clusters := [''mycluster'' \<mapsto> c]\<rparr>"
  have step1: "move_cluster ''abc-123'' ''mycluster'' cfg = ?cfg1"
    by (simp only: move_cluster_present [OF clusters(2)] singleton_map_moved [OF clusters(1) differ])
  have "Contexts ?cfg1 ''abc-123'' = Some ctx"
    using contexts(2) by simp
  then have step2: "move_context ''abc-123'' ''mycluster'' ?cfg1 =
      ?cfg1\<lparr>Contexts := [''mycluster'' \<mapsto> ctx\<lparr>Cluster := ''mycluster''\<rparr>]\<rparr>"
    using singleton_map_moved [OF contexts(1) differ, of "ctx\<lparr>Cluster := ''mycluster''\<rparr>"]
    by (simp add: move_context_def)
  show ?thesis
    unfolding rename_identity_unfold ks step1 step2
    by (simp add: move_current_context_def current)
qed

text \<open>The document the provider returns for the cluster \<open>abc-123\<close>.\<close>
theorem rename_identity_provider_document_witness:
  "range_order (Clusters provider_config) [''abc-123'']
   \<and> rename_identity [''abc-123''] ''mycluster'' provider_config =
       provider_config\<lparr>Clusters := [''mycluster'' \<mapsto> ''https://abc-123.sks''],
                       Contexts := [''mycluster'' \<mapsto> admin_context\<lparr>Cluster := ''mycluster''\<rparr>],
                       CurrentContext := ''mycluster''\<rparr>"
proof -
  have order: "range_order (Clusters provider_config) [''abc-123'']"
    by (simp add: range_order_def provider_config_def)
  have c1: "dom (Clusters provider_config) = {''abc-123''}"
    by (simp add: provider_config_def)
  have c2: "Clusters provider_config ''abc-123'' = Some ''https://abc-123.sks''"
    by (simp add: provider_config_def)
  have x1: "dom (Contexts provider_config) = {''abc-123''}"
    by (simp add: provider_config_def)
  have x2: "Contexts provider_config ''abc-123'' = Some admin_context"
    by (simp add: provider_config_def)
  have r: "Cluster admin_context = ''abc-123''"
    by (simp add: admin_context_def)
  have cur: "CurrentContext provider_config = ''abc-123''"
    by (simp add: provider_config_def)
  show ?thesis
    using order rename_identity_provider_document [OF c1 c2 x1 x2 r cur order] by simp
qed

lemma gva_path: "SplitN ''ch-gva-2/mycluster'' (CHR ''/'') 2 = [''ch-gva-2'', ''mycluster'']"
  by (simp add: SplitN_2)

lemma gva_match:
  "find_match [''abc-123''] (DiscoveredClusters gva_state) ''ch-gva-2'' ''mycluster'' =
     Some \<lparr>ID = ''abc-123'', Name = ''mycluster'', ZoneName = ''ch-gva-2'',
           ZoneEndpoint = ''https://api-ch-gva-2''\<rparr>"
  by (simp add: gva_state_def)

lemma gva_fetch:
  "fst (fetch_kubeconfig gva_client (stub_codec doc) [''abc-123''] ''ch-gva-2/mycluster'' gva_state) =
     Inr (''mycluster'', doc)"
  by (simp add: fetch_kubeconfig_def gva_path Let_def gva_state_def gva_client_def stub_codec_def)

lemma gva_result:
  "fst (GetKubeconfigForPath gva_client (stub_codec doc) [''abc-123''] ko ''ch-gva-2/mycluster'' extra gva_state) =
     Inr (rename_identity ko ''mycluster'' doc)"
proof (cases "fetch_kubeconfig gva_client (stub_codec doc) [''abc-123''] ''ch-gva-2/mycluster'' gva_state")
  case (Pair r s1)
  with gva_fetch [of doc] have "r = Inr (''mycluster'', doc)" by simp
  with Pair show ?thesis
    by (simp add: GetKubeconfigForPath_def stub_codec_def)
qed

lemma crossrefs_okI:
  assumes "\<And>k ctx. Contexts cfg k = Some ctx \<Longrightarrow> Cluster ctx \<in> dom (Clusters cfg)"
    and "CurrentContext cfg \<noteq> '''' \<Longrightarrow> CurrentContext cfg \<in> dom (Contexts cfg)"
  shows "crossrefs_ok cfg"
  using assms by (auto simp: crossrefs_ok_def ran_def)

lemma crossrefs_ok_context:
  "crossrefs_ok cfg \<Longrightarrow> Contexts cfg k = Some ctx \<Longrightarrow> Cluster ctx \<in> dom (Clusters cfg)"
  by (auto simp: crossrefs_ok_def ran_def)

lemma crossrefs_ok_current:
  "crossrefs_ok cfg \<Longrightarrow> CurrentContext cfg \<noteq> '''' \<Longrightarrow> CurrentContext cfg \<in> dom (Contexts cfg)"
  by (simp add: crossrefs_ok_def)

lemma mirrors_cluster_keyD:
  assumes "mirrors_cluster_key old cfg" and "Contexts cfg k = Some ctx" and "Cluster ctx = old"
  shows "k = old"
proof -
  have "k \<in> dom (Contexts cfg)" using assms(2) by blast
  moreover have "Cluster (the (Contexts cfg k)) = old" using assms(2,3) by simp
  ultimately show ?thesis using assms(1) unfolding mirrors_cluster_key_def by blast
qed

lemma rename_keeps_crossrefs:
  assumes ok: "crossrefs_ok cfg"
    and cluster: "Clusters cfg old = Some c"
    and nonempty: "old \<noteq> ''''"
    and differ: "new \<noteq> old"
    and mirror: "mirrors_cluster_key old cfg"
  shows "crossrefs_ok (move_current_context old new (move_context old new (move_cluster old new cfg)))"
proof -
  let ?cfg1 = "cfg\<lparr>Clusters := ((Clusters cfg)(new \<mapsto> c))(old := None)\<rparr>"
  have step1: "move_cluster old new cfg = ?cfg1"
    using cluster by (rule move_cluster_present)
  have kept: "Cluster ctx \<in> dom (Clusters ?cfg1)" if "Contexts cfg k = Some ctx" and "k \<noteq> old" for k ctx
  proof -
    have "Cluster ctx \<in> dom (Clusters cfg)" using ok that(1) by (rule crossrefs_ok_context)
    moreover have "Cluster ctx \<noteq> old" using mirrors_cluster_keyD [OF mirror that(1)] that(2) by blast
    ultimately show ?thesis by simp
  qed
  show ?thesis
  proof (cases "Contexts cfg old")
    case None
    then have step2: "move_context old new ?cfg1 = ?cfg1"
      by (simp add: move_context_def)
    have cur: "CurrentContext cfg \<noteq> old"
      using crossrefs_ok_current [OF ok] None nonempty by auto
    then have step3: "move_current_context old new ?cfg1 = ?cfg1"
      by (simp add: move_current_context_def)
    have "crossrefs_ok ?cfg1"
    proof (rule crossrefs_okI)
      fix k ctx assume "Contexts ?cfg1 k = Some ctx"
      then have "Contexts cfg k = Some ctx" by simp
      moreover from this None have "k \<noteq> old" by auto
      ultimately show "Cluster ctx \<in> dom (Clusters ?cfg1)" by (rule kept)
    next
      assume "CurrentContext ?cfg1 \<noteq> ''''"
      then show "CurrentContext ?cfg1 \<in> dom (Contexts ?cfg1)"
        using crossrefs_ok_current [OF ok] by simp
    qed
    then show ?thesis by (simp only: step1 step2 step3)
  next
    case (Some ctx0)
    let ?cfg2 = "?cfg1\<lparr>Contexts := ((Contexts cfg)(new \<mapsto> ctx0\<lparr>Cluster := new\<rparr>))(old := None)\<rparr>"
    have step2: "move_context old new ?cfg1 = ?cfg2"
      using Some by (simp add: move_context_def)
    let ?cfg3 = "if CurrentContext cfg = old then ?cfg2\<lparr>CurrentContext := new\<rparr> else ?cfg2"
    have step3: "move_current_context old new ?cfg2 = ?cfg3"
      by (simp add: move_current_context_def)
    have "crossrefs_ok ?cfg3"
    proof (rule crossrefs_okI)
      fix k ctx assume "Contexts ?cfg3 k = Some ctx"
      then have look: "((Contexts cfg)(new \<mapsto> ctx0\<lparr>Cluster := new\<rparr>)) k = Some ctx" and "k \<noteq> old"
        by (auto split: if_splits)
      show "Cluster ctx \<in> dom (Clusters ?cfg3)"
      proof (cases "k = new")
        case True
        with look have "Cluster ctx = new" by auto
        then show ?thesis using differ by simp
      next
        case False
        with look have "Contexts cfg k = Some ctx" by simp
        from kept [OF this \<open>k \<noteq> old\<close>] show ?thesis by simp
      qed
    next
      assume set: "CurrentContext ?cfg3 \<noteq> ''''"
      show "CurrentContext ?cfg3 \<in> dom (Contexts ?cfg3)"
      proof (cases "CurrentContext cfg = old")
        case True
        then show ?thesis using differ by simp
      next
        case False
        with set have "CurrentContext cfg \<in> dom (Contexts cfg)"
          using crossrefs_ok_current [OF ok] by simp
        with False show ?thesis by auto
      qed
    qed
    then show ?thesis by (simp only: step1 step2 step3)
  qed
qed

lemma GetKubeconfigForPath_written:
  assumes "fetch_kubeconfig client codec io path s = (Inr (clusterName, cfg), s1)"
    and "GetKubeconfigForPath client codec io ko path extra s = (Inr out, s')"
  shows "Write codec (rename_identity ko clusterName cfg) = Inr out"
  using assms by (auto simp: GetKubeconfigForPath_def split: sum.splits)

text \<open>
  C2, as amended. Let the parsed document have valid cross-references and at least one
  cluster, let the key selected as \<open>oldClusterName\<close> be non-empty and different from
  the target name, and let every context that references that key be stored under that
  key. If the call returns bytes, they are the serialization of the rewritten document, and
  in it every context references a key of the clusters and a non-empty current context is
  a key of the contexts.
\<close>
theorem GetKubeconfigForPath_keeps_crossrefs:
  assumes fetch: "fetch_kubeconfig client codec io path s = (Inr (clusterName, cfg), s1)"
    and order: "range_order (Clusters cfg) ko"
    and ok: "crossrefs_ok cfg"
    and some: "Clusters cfg \<noteq> Map.empty"
    and nonempty: "oldClusterName ko \<noteq> ''''"
    and differ: "clusterName \<noteq> oldClusterName ko"
    and mirror: "mirrors_cluster_key (oldClusterName ko) cfg"
    and result: "GetKubeconfigForPath client codec io ko path extra s = (Inr out, s')"
  shows "Write codec (rename_identity ko clusterName cfg) = Inr out
         \<and> crossrefs_ok (rename_identity ko clusterName cfg)"
proof -
  from oldClusterName_in_dom [OF order some]
  obtain c where "Clusters cfg (oldClusterName ko) = Some c" by auto
  from rename_keeps_crossrefs [OF ok this nonempty differ mirror]
  have "crossrefs_ok (rename_identity ko clusterName cfg)"
    by (simp only: rename_identity_unfold)
  with GetKubeconfigForPath_written [OF fetch result] show ?thesis by simp
qed

text \<open>
  C7 does not hold of the code. With no cluster entry \<open>oldClusterName\<close> is the empty
  string, and line 259 compares the current context with it: a document without clusters
  and without a current context gets the target name as its current context, although it
  has no context of that name. The call returns that changed document.
\<close>
theorem rename_identity_without_clusters:
  "range_order (Clusters empty_config) []
   \<and> rename_identity [] ''mycluster'' empty_config = empty_config\<lparr>CurrentContext := ''mycluster''\<rparr>
   \<and> rename_identity [] ''mycluster'' empty_config \<noteq> empty_config
   \<and> fst (GetKubeconfigForPath gva_client (stub_codec empty_config) [''abc-123''] []
            ''ch-gva-2/mycluster'' Map.empty gva_state)
       = Inr (empty_config\<lparr>CurrentContext := ''mycluster''\<rparr>)"
proof -
  have order: "range_order (Clusters empty_config) []"
    by (simp add: range_order_def empty_config_def)
  have renamed: "rename_identity [] ''mycluster'' empty_config = empty_config\<lparr>CurrentContext := ''mycluster''\<rparr>"
    by (simp add: rename_identity_unfold oldClusterName_def move_cluster_def move_context_def
          move_current_context_def empty_config_def)
  have changed: "empty_config\<lparr>CurrentContext := ''mycluster''\<rparr> \<noteq> empty_config"
  proof
    assume same: "empty_config\<lparr>CurrentContext := ''mycluster''\<rparr> = empty_config"
    have "CurrentContext (empty_config\<lparr>CurrentContext := ''mycluster''\<rparr>) = ''mycluster''"
      by simp
    then have "CurrentContext empty_config = ''mycluster''"
      by (simp only: same)
    then show False
      by (simp add: empty_config_def)
  qed
  show ?thesis
    using order renamed changed gva_result [of empty_config "[]" Map.empty] by simp
qed

text \<open>
  C2 as stated fails: only a context stored under the old cluster key is rewritten. A
  document whose context \<open>admin\<close> references the cluster \<open>abc-123\<close> is returned
  with the cluster renamed to \<open>mycluster\<close> and the context still referencing
  \<open>abc-123\<close>.
\<close>
theorem GetKubeconfigForPath_dangling_reference:
  "range_order (Clusters admin_config) [''abc-123'']
   \<and> fst (GetKubeconfigForPath gva_client (stub_codec admin_config) [''abc-123''] [''abc-123'']
            ''ch-gva-2/mycluster'' Map.empty gva_state)
       = Inr (admin_config\<lparr>Clusters := [''mycluster'' \<mapsto> ''https://abc-123.sks'']\<rparr>)
   \<and> Contexts (admin_config\<lparr>Clusters := [''mycluster'' \<mapsto> ''https://abc-123.sks'']\<rparr>) ''admin''
       = Some admin_context
   \<and> Cluster admin_context \<notin> dom (Clusters (admin_config\<lparr>Clusters := [''mycluster'' \<mapsto> ''https://abc-123.sks'']\<rparr>))
   \<and> \<not> crossrefs_ok (admin_config\<lparr>Clusters := [''mycluster'' \<mapsto> ''https://abc-123.sks'']\<rparr>)"
proof -
  let ?out = "admin_config\<lparr>Clusters := [''mycluster'' \<mapsto> ''https://abc-123.sks'']\<rparr>"
  have order: "range_order (Clusters admin_config) [''abc-123'']"
    by (simp add: range_order_def admin_config_def provider_config_def)
  have dom1: "dom (Clusters admin_config) = {''abc-123''}"
    by (simp add: admin_config_def provider_config_def)
  have "move_cluster ''abc-123'' ''mycluster'' admin_config =
          admin_config\<lparr>Clusters := ((Clusters admin_config)(''mycluster'' \<mapsto> ''https://abc-123.sks''))(''abc-123'' := None)\<rparr>"
    by (rule move_cluster_present) (simp add: admin_config_def provider_config_def)
  then have step1: "move_cluster ''abc-123'' ''mycluster'' admin_config = ?out"
    using singleton_map_moved [OF dom1, of "''mycluster''" "''https://abc-123.sks''"] by simp
  have step2: "move_context ''abc-123'' ''mycluster'' ?out = ?out"
    by (rule move_context_absent) (simp add: admin_config_def)
  have step3: "move_current_context ''abc-123'' ''mycluster'' ?out = ?out"
    by (simp add: move_current_context_def admin_config_def)
  have renamed: "rename_identity [''abc-123''] ''mycluster'' admin_config = ?out"
    by (simp add: rename_identity_unfold oldClusterName_def step1 step2 step3)
  have look: "Contexts ?out ''admin'' = Some admin_context"
    by (simp add: admin_config_def)
  have dangling: "Cluster admin_context \<notin> dom (Clusters ?out)"
    by (simp add: admin_context_def)
  have "\<not> crossrefs_ok ?out"
    using crossrefs_ok_context [OF _ look] dangling by blast
  with order renamed look dangling
    gva_result [of admin_config "[''abc-123'']" Map.empty]
  show ?thesis by simp
qed

text \<open>
  When the target name is the old key itself, lines 242 to 243 and 254 to 255 store the
  entry and then delete it: the cluster and the context are lost.
\<close>
lemma rename_identity_same_name:
  "Clusters (rename_identity [''abc-123''] ''abc-123'' provider_config) = Map.empty
   \<and> Contexts (rename_identity [''abc-123''] ''abc-123'' provider_config) = Map.empty
   \<and> CurrentContext (rename_identity [''abc-123''] ''abc-123'' provider_config) = ''abc-123''"
  by (simp add: rename_identity_unfold oldClusterName_def move_cluster_def move_context_def
        move_current_context_def provider_config_def)

text \<open>The document of the provider satisfies every hypothesis.\<close>
theorem GetKubeconfigForPath_keeps_crossrefs_witness:
  "fetch_kubeconfig gva_client (stub_codec provider_config) [''abc-123''] ''ch-gva-2/mycluster'' gva_state
     = (Inr (''mycluster'', provider_config),
        gva_state\<lparr>requests := [CallGenerateSKSClusterKubeconfig ''https://api-ch-gva-2'' ''abc-123''
                                  \<lparr>Groups = [''system:masters''], User = ''default'', Ttl = 2592000\<rparr>]\<rparr>)
   \<and> range_order (Clusters provider_config) [''abc-123'']
   \<and> crossrefs_ok provider_config
   \<and> Clusters provider_config \<noteq> Map.empty
   \<and> oldClusterName [''abc-123''] \<noteq> ''''
   \<and> ''mycluster'' \<noteq> oldClusterName [''abc-123'']
   \<and> mirrors_cluster_key (oldClusterName [''abc-123'']) provider_config
   \<and> GetKubeconfigForPath gva_client (stub_codec provider_config) [''abc-123''] [''abc-123'']
        ''ch-gva-2/mycluster'' Map.empty gva_state =
       (Inr (rename_identity [''abc-123''] ''mycluster'' provider_config),
        gva_state\<lparr>requests := [CallGenerateSKSClusterKubeconfig ''https://api-ch-gva-2'' ''abc-123''
                                  \<lparr>Groups = [''system:masters''], User = ''default'', Ttl = 2592000\<rparr>]\<rparr>)
   \<and> Write (stub_codec provider_config) (rename_identity [''abc-123''] ''mycluster'' provider_config) =
       Inr (rename_identity [''abc-123''] ''mycluster'' provider_config)
   \<and> crossrefs_ok (rename_identity [''abc-123''] ''mycluster'' provider_config)"
proof -
  let ?s1 = "gva_state\<lparr>requests := [CallGenerateSKSClusterKubeconfig ''https://api-ch-gva-2'' ''abc-123''
                                  \<lparr>Groups = [''system:masters''], User = ''default'', Ttl = 2592000\<rparr>]\<rparr>"
  have fetch: "fetch_kubeconfig gva_client (stub_codec provider_config) [''abc-123''] ''ch-gva-2/mycluster'' gva_state
     = (Inr (''mycluster'', provider_config), ?s1)"
    by (simp add: fetch_kubeconfig_def gva_path Let_def gva_state_def gva_client_def stub_codec_def)
  have order: "range_order (Clusters provider_config) [''abc-123'']"
    by (simp add: range_order_def provider_config_def)
  have ok: "crossrefs_ok provider_config"
    by (simp add: crossrefs_ok_def provider_config_def admin_context_def)
  have some: "Clusters provider_config \<noteq> Map.empty"
    by (simp add: provider_config_def)
  have nonempty: "oldClusterName [''abc-123''] \<noteq> ''''"
    by (simp add: oldClusterName_def)
  have differ: "''mycluster'' \<noteq> oldClusterName [''abc-123'']"
    by (simp add: oldClusterName_def)
  have mirror: "mirrors_cluster_key (oldClusterName [''abc-123'']) provider_config"
    by (simp add: mirrors_cluster_key_def provider_config_def oldClusterName_def)
  have result: "GetKubeconfigForPath gva_client (stub_codec provider_config) [''abc-123''] [''abc-123'']
      ''ch-gva-2/mycluster'' Map.empty gva_state =
      (Inr (rename_identity [''abc-123''] ''mycluster'' provider_config), ?s1)"
    unfolding GetKubeconfigForPath_def fetch by (simp add: stub_codec_def)
  from GetKubeconfigForPath_keeps_crossrefs [OF fetch order ok some nonempty differ mirror result]
  show ?thesis using fetch order ok some nonempty differ mirror result by blast
qed

text \<open>
  C3 as stated fails: a path with three separators is not answered with the invalid-path
  error; it is split into the zone \<open>ch-gva-2\<close> and the cluster name \<open>team/prod/eu\<close>,
  which the index does not hold.
\<close>
theorem GetKubeconfigForPath_extra_separators:
  "length (filter (\<lambda>c. c = CHR ''/'') ''ch-gva-2/team/prod/eu'') = 3
   \<and> fst (GetKubeconfigForPath gva_client (stub_codec provider_config) [''abc-123''] [''abc-123'']
            ''ch-gva-2/team/prod/eu'' Map.empty gva_state)
       = Inl (NoClusterFound ''ch-gva-2/team/prod/eu'')
   \<and> fst (GetKubeconfigForPath gva_client (stub_codec provider_config) [''abc-123''] [''abc-123'']
            ''ch-gva-2/team/prod/eu'' Map.empty gva_state)
       \<noteq> Inl (InvalidClusterPath ''ch-gva-2/team/prod/eu'')"
  by (simp add: GetKubeconfigForPath_def fetch_kubeconfig_def SplitN_2 gva_state_def)

text \<open>The path \<open>onlyonesegment\<close> of the specification.\<close>
theorem GetKubeconfigForPath_invalid_path_witness:
  "fst (GetKubeconfigForPath gva_client (stub_codec provider_config) [''abc-123''] [''abc-123'']
          ''onlyonesegment'' Map.empty gva_state) = Inl (InvalidClusterPath ''onlyonesegment'')"
  using GetKubeconfigForPath_invalid_path [of gva_client "stub_codec provider_config" "[''abc-123'']"
          "[''abc-123'']" "''onlyonesegment''" Map.empty gva_state "''onlyonesegment''"]
  by simp

text \<open>The path \<open>ch-gva-2/mycluster\<close> on an index that holds that cluster.\<close>
theorem GetKubeconfigForPath_request_witness:
  "SplitN ''ch-gva-2/mycluster'' (CHR ''/'') 2 = [''ch-gva-2'', ''mycluster'']
   \<and> find_match [''abc-123''] (DiscoveredClusters gva_state) ''ch-gva-2'' ''mycluster'' =
       Some \<lparr>ID = ''abc-123'', Name = ''mycluster'', ZoneName = ''ch-gva-2'',
             ZoneEndpoint = ''https://api-ch-gva-2''\<rparr>
   \<and> requests (snd (GetKubeconfigForPath gva_client (stub_codec provider_config) [''abc-123'']
                       [''abc-123''] ''ch-gva-2/mycluster'' Map.empty gva_state)) =
       [CallGenerateSKSClusterKubeconfig ''https://api-ch-gva-2'' ''abc-123''
          \<lparr>Groups = [''system:masters''], User = ''default'', Ttl = 2592000\<rparr>]"
proof -
  have no_requests: "requests gva_state = []"
    by (simp add: gva_state_def)
  show ?thesis
    using gva_path gva_match
      GetKubeconfigForPath_request [OF gva_path gva_match, of gva_client "stub_codec provider_config"
        "[''abc-123'']" Map.empty]
    by (simp add: no_requests)
qed

text \<open>The index of the example is still there after a successful call.\<close>
theorem GetKubeconfigForPath_index_unchanged_witness:
  "DiscoveredClusters (snd (GetKubeconfigForPath gva_client (stub_codec provider_config) [''abc-123'']
                              [''abc-123''] ''ch-gva-2/mycluster'' Map.empty gva_state)) =
     [''abc-123'' \<mapsto> \<lparr>ID = ''abc-123'', Name = ''mycluster'', ZoneName = ''ch-gva-2'',
                       ZoneEndpoint = ''https://api-ch-gva-2''\<rparr>]"
  using GetKubeconfigForPath_index_unchanged [of gva_client "stub_codec provider_config" "[''abc-123'']"
          "[''abc-123'']" "''ch-gva-2/mycluster''" Map.empty gva_state]
  by (simp add: gva_state_def)

end
